theory Spec2Isabelle
  imports Complex_Main "HOL-Library.AList"
begin

section \<open>Fleet types (module fleet/types)\<close>

text \<open>
  The string-tagged unions of the source are datatypes. JavaScript numbers are modelled
  exactly: counters and timestamps as \<open>int\<close>, trust, flux and consensus values as
  \<open>real\<close>. \<open>Date.now()\<close> is the parameter \<open>now\<close> of every operation that reads the
  clock, and generated identifiers are parameters of the operations that create them.
  Fields that no operation below reads (names, descriptions, opaque payloads, the spectral
  identity, the \<open>data\<close> payload of events) are left out of the records.
\<close>

datatype AgentCapability =
  code_generation | code_review | testing | documentation | security_scan
  | deployment | monitoring | data_analysis | orchestration | communication

datatype AgentStatus = Idle | Busy | Offline | Suspended | Quarantined

datatype TaskPriority = PCritical | PHigh | PMedium | PLow

datatype TaskStatus =
  Pending | Assigned | Running | Completed | Failed | Cancelled | AwaitingApproval

datatype GovernanceTier = KO | AV | RU | CA | UM | DR

datatype TrustLevel = HIGH | MEDIUM | LOW | CRITICAL

text \<open>
  \<open>TrustScore\<close> is declared in the trust manager, outside the fleet modules; the fleet
  code reads its two fields \<open>normalized\<close> and \<open>level\<close>.
\<close>

record TrustScore =
  normalized :: real
  level :: TrustLevel

record FleetAgent =
  agent_id :: string
  capabilities :: "AgentCapability list"
  agent_status :: AgentStatus
  trustVector :: "real list"
  trustScore :: "TrustScore option"
  maxConcurrentTasks :: int
  currentTaskCount :: int
  maxGovernanceTier :: GovernanceTier
  lastActiveAt :: int
  tasksCompleted :: int
  successRate :: real

record FleetTask =
  task_id :: string
  requiredCapability :: AgentCapability
  requiredTier :: GovernanceTier
  priority :: TaskPriority
  task_status :: TaskStatus
  assignedAgentId :: "string option"
  task_error :: "string option"
  minTrustScore :: real
  requiresApproval :: bool
  approvalVotes :: "string list option"
  requiredApprovals :: int
  createdAt :: int
  startedAt :: "int option"
  completedAt :: "int option"
  timeoutMs :: int
  retryCount :: int
  maxRetries :: int

datatype FleetEventType =
  agent_registered | agent_updated | agent_removed | agent_suspended | agent_quarantined
  | task_created | task_assigned | task_started | task_completed | task_failed
  | task_cancelled | roundtable_started | roundtable_vote | roundtable_concluded
  | trust_updated | security_alert

record FleetEvent =
  ev_type :: FleetEventType
  ev_timestamp :: int
  ev_agentId :: "string option"
  ev_taskId :: "string option"

text \<open>The table \<open>GOVERNANCE_TIERS\<close> and the array \<open>tierOrder\<close> with its \<open>indexOf\<close>.\<close>

fun tier_minTrustScore :: "GovernanceTier \<Rightarrow> real" where
  "tier_minTrustScore KO = 0.1"
| "tier_minTrustScore AV = 0.3"
| "tier_minTrustScore RU = 0.5"
| "tier_minTrustScore CA = 0.7"
| "tier_minTrustScore UM = 0.85"
| "tier_minTrustScore DR = 0.95"

fun tier_requiredTongues :: "GovernanceTier \<Rightarrow> int" where
  "tier_requiredTongues KO = 1"
| "tier_requiredTongues AV = 2"
| "tier_requiredTongues RU = 3"
| "tier_requiredTongues CA = 4"
| "tier_requiredTongues UM = 5"
| "tier_requiredTongues DR = 6"

fun tierIndex :: "GovernanceTier \<Rightarrow> nat" where
  "tierIndex KO = 0"
| "tierIndex AV = 1"
| "tierIndex RU = 2"
| "tierIndex CA = 3"
| "tierIndex UM = 4"
| "tierIndex DR = 5"

text \<open>Every \<open>throw\<close> of the fleet modules is a value of this type.\<close>

datatype error =
  TaskNotFound | AgentNotFound | SessionNotFound
  | SessionNotActive | SessionExpired | NotParticipant | AlreadyVoted | AgentCannotVote
  | AgentCannotAccept | AgentAtCapacity | TrustVectorDimension | NotEnoughAgents
  | TypeError | AgentExists

text \<open>
  A JavaScript string used as a condition is false when it is undefined or empty.
\<close>

definition truthy :: "string option \<Rightarrow> string option" where
  "truthy s = (case s of None \<Rightarrow> None | Some a \<Rightarrow> if a = [] then None else Some a)"

section \<open>Agent registry (module fleet/agent-registry)\<close>

text \<open>
  The registry's \<open>Map\<close> of agents is an association list in insertion order: \<open>map_of\<close> is
  \<open>get\<close>, \<open>AList.update\<close> is \<open>set\<close>, the values in order are \<open>values()\<close>. The trust manager
  is a collaborator that is not part of the fleet modules, so \<open>computeTrustScore\<close> is a
  field of the registry, as in the class. \<open>reg_events\<close> is the sequence of events handed to
  the subscribers. An operation returns its result, or the error it throws, together with
  the registry as the call leaves it: a \<open>throw\<close> does not undo earlier assignments.
\<close>

record AgentRegistry =
  agents :: "(string \<times> FleetAgent) list"
  computeTrustScore :: "string \<Rightarrow> real list \<Rightarrow> TrustScore"
  reg_events :: "FleetEvent list"

definition getAgent :: "AgentRegistry \<Rightarrow> string \<Rightarrow> FleetAgent option" where
  "getAgent r i = map_of (agents r) i"

definition getAllAgents :: "AgentRegistry \<Rightarrow> FleetAgent list" where
  "getAllAgents r = map snd (agents r)"

definition setAgent :: "AgentRegistry \<Rightarrow> string \<Rightarrow> FleetAgent \<Rightarrow> AgentRegistry" where
  "setAgent r i a = r\<lparr>agents := AList.update i a (agents r)\<rparr>"

definition emitEvent_reg :: "AgentRegistry \<Rightarrow> FleetEvent \<Rightarrow> AgentRegistry" where
  "emitEvent_reg r e = r\<lparr>reg_events := reg_events r @ [e]\<rparr>"

record AgentRegistrationOptions =
  ar_capabilities :: "AgentCapability list"
  ar_maxConcurrentTasks :: "int option"
  ar_maxGovernanceTier :: "GovernanceTier option"
  initialTrustVector :: "real list option"

definition newAgentRegistry :: "(string \<Rightarrow> real list \<Rightarrow> TrustScore) \<Rightarrow> AgentRegistry" where
  "newAgentRegistry tm = \<lparr>agents = [], computeTrustScore = tm, reg_events = []\<rparr>"

definition registerAgent ::
  "AgentRegistry \<Rightarrow> int \<Rightarrow> string \<Rightarrow> AgentRegistrationOptions
     \<Rightarrow> (error + FleetAgent) \<times> AgentRegistry" where
  "registerAgent r now i opts =
     (if getAgent r i \<noteq> None then (Inl AgentExists, r)
      else
        let v = (case initialTrustVector opts of
                   None \<Rightarrow> [0.5, 0.5, 0.5, 0.5, 0.5, 0.5]
                 | Some given \<Rightarrow> given)
        in if length v \<noteq> 6 then (Inl TrustVectorDimension, r)
           else
             let agent =
                   \<lparr>agent_id = i,
                    capabilities = ar_capabilities opts,
                    agent_status = Idle,
                    trustVector = v,
                    trustScore = Some (computeTrustScore r i v),
                    maxConcurrentTasks =
                      (case ar_maxConcurrentTasks opts of
                         None \<Rightarrow> 3
                       | Some n \<Rightarrow> if n = 0 then 3 else n),
                    currentTaskCount = 0,
                    maxGovernanceTier =
                      (case ar_maxGovernanceTier opts of None \<Rightarrow> RU | Some t \<Rightarrow> t),
                    lastActiveAt = now,
                    tasksCompleted = 0,
                    successRate = 1.0\<rparr>
             in (Inr agent,
                 emitEvent_reg (setAgent r i agent)
                   \<lparr>ev_type = agent_registered, ev_timestamp = now,
                    ev_agentId = Some i, ev_taskId = None\<rparr>))"

definition updateTrustVector ::
  "AgentRegistry \<Rightarrow> int \<Rightarrow> string \<Rightarrow> real list \<Rightarrow> (error + unit) \<times> AgentRegistry" where
  "updateTrustVector r now i v =
     (case getAgent r i of
        None \<Rightarrow> (Inl AgentNotFound, r)
      | Some agent \<Rightarrow>
          if length v \<noteq> 6 then (Inl TrustVectorDimension, r)
          else
            let ts = computeTrustScore r i v;
                a1 = agent\<lparr>trustVector := v, trustScore := Some ts, lastActiveAt := now\<rparr>;
                r1 = emitEvent_reg (setAgent r i a1)
                       \<lparr>ev_type = trust_updated, ev_timestamp = now,
                        ev_agentId = Some i, ev_taskId = None\<rparr>
            in if level ts = CRITICAL \<and> agent_status a1 \<noteq> Quarantined then
                 let r2 = setAgent r1 i (a1\<lparr>agent_status := Quarantined\<rparr>);
                     r3 = emitEvent_reg r2
                            \<lparr>ev_type = agent_quarantined, ev_timestamp = now,
                             ev_agentId = Some i, ev_taskId = None\<rparr>;
                     r4 = emitEvent_reg r3
                            \<lparr>ev_type = security_alert, ev_timestamp = now,
                             ev_agentId = Some i, ev_taskId = None\<rparr>
                 in (Inr (), r4)
               else (Inr (), r1))"

definition recordTaskCompletion ::
  "AgentRegistry \<Rightarrow> int \<Rightarrow> string \<Rightarrow> bool \<Rightarrow> (error + unit) \<times> AgentRegistry" where
  "recordTaskCompletion r now i success =
     (case getAgent r i of
        None \<Rightarrow> (Inl AgentNotFound, r)
      | Some agent \<Rightarrow>
          let a1 = agent\<lparr>tasksCompleted := tasksCompleted agent + 1,
                         currentTaskCount := max 0 (currentTaskCount agent - 1),
                         lastActiveAt := now,
                         successRate := 0.1 * (if success then 1 else 0)
                                        + (1 - 0.1) * successRate agent\<rparr>;
              r1 = setAgent r i a1;
              v = (if success then map (\<lambda>x. min 1 (x + 0.01)) (trustVector a1)
                   else map (\<lambda>x. max 0 (x - 0.05)) (trustVector a1));
              upd = updateTrustVector r1 now i v;
              r2 = snd upd
          in (case fst upd of
                Inl e \<Rightarrow> (Inl e, r2)
              | Inr u \<Rightarrow>
                  (case getAgent r2 i of
                     None \<Rightarrow> (Inr (), r2)
                   | Some a2 \<Rightarrow>
                       if currentTaskCount a2 = 0 \<and> agent_status a2 = Busy
                       then (Inr (), setAgent r2 i (a2\<lparr>agent_status := Idle\<rparr>))
                       else (Inr (), r2))))"

definition assignTask_reg ::
  "AgentRegistry \<Rightarrow> int \<Rightarrow> string \<Rightarrow> (error + unit) \<times> AgentRegistry" where
  "assignTask_reg r now i =
     (case getAgent r i of
        None \<Rightarrow> (Inl AgentNotFound, r)
      | Some agent \<Rightarrow>
          if agent_status agent = Suspended \<or> agent_status agent = Quarantined
          then (Inl AgentCannotAccept, r)
          else if currentTaskCount agent \<ge> maxConcurrentTasks agent
          then (Inl AgentAtCapacity, r)
          else (Inr (), setAgent r i
                  (agent\<lparr>currentTaskCount := currentTaskCount agent + 1,
                         agent_status := Busy, lastActiveAt := now\<rparr>)))"

section \<open>Task dispatcher (module fleet/task-dispatcher)\<close>

record TaskCreationOptions =
  opt_requiredCapability :: AgentCapability
  opt_requiredTier :: GovernanceTier
  opt_priority :: "TaskPriority option"
  opt_minTrustScore :: "real option"
  opt_requiresApproval :: "bool option"
  opt_requiredApprovals :: "int option"
  opt_timeoutMs :: "int option"
  opt_maxRetries :: "int option"

datatype reason =
  ReasonTaskNotFound | ReasonNotPending TaskStatus | ReasonNoEligibleAgents
  | ReasonAwaitingApproval | ReasonThrown error

record TaskAssignmentResult =
  success :: bool
  res_taskId :: string
  res_assignedAgentId :: "string option"
  res_reason :: "reason option"

record TaskDispatcher =
  tasks :: "string \<rightharpoonup> FleetTask"
  taskQueue :: "string list"
  registry :: AgentRegistry
  disp_events :: "FleetEvent list"

definition newTaskDispatcher :: "AgentRegistry \<Rightarrow> TaskDispatcher" where
  "newTaskDispatcher r = \<lparr>tasks = Map.empty, taskQueue = [], registry = r, disp_events = []\<rparr>"

definition emitEvent :: "TaskDispatcher \<Rightarrow> FleetEvent \<Rightarrow> TaskDispatcher" where
  "emitEvent d e = d\<lparr>disp_events := disp_events d @ [e]\<rparr>"

definition addToQueue :: "TaskDispatcher \<Rightarrow> string \<Rightarrow> TaskDispatcher" where
  "addToQueue d tid = (if tid \<in> set (taskQueue d) then d
                       else d\<lparr>taskQueue := taskQueue d @ [tid]\<rparr>)"

definition removeFromQueue :: "TaskDispatcher \<Rightarrow> string \<Rightarrow> TaskDispatcher" where
  "removeFromQueue d tid = d\<lparr>taskQueue := remove1 tid (taskQueue d)\<rparr>"

definition createTask ::
  "TaskDispatcher \<Rightarrow> int \<Rightarrow> string \<Rightarrow> TaskCreationOptions \<Rightarrow> FleetTask \<times> TaskDispatcher" where
  "createTask d now tid opts =
     (let tier = opt_requiredTier opts;
          task = \<lparr>task_id = tid,
                  requiredCapability = opt_requiredCapability opts,
                  requiredTier = tier,
                  priority = (case opt_priority opts of None \<Rightarrow> PMedium | Some p \<Rightarrow> p),
                  task_status = Pending,
                  assignedAgentId = None,
                  task_error = None,
                  minTrustScore = (case opt_minTrustScore opts of
                                     None \<Rightarrow> tier_minTrustScore tier | Some m \<Rightarrow> m),
                  requiresApproval = (case opt_requiresApproval opts of
                                        None \<Rightarrow> tier = DR \<or> tier = UM | Some b \<Rightarrow> b),
                  approvalVotes = None,
                  requiredApprovals = (case opt_requiredApprovals opts of
                                         None \<Rightarrow> tier_requiredTongues tier | Some n \<Rightarrow> n),
                  createdAt = now,
                  startedAt = None,
                  completedAt = None,
                  timeoutMs = (case opt_timeoutMs opts of
                                 None \<Rightarrow> 300000 | Some n \<Rightarrow> if n = 0 then 300000 else n),
                  retryCount = 0,
                  maxRetries = (case opt_maxRetries opts of None \<Rightarrow> 3 | Some n \<Rightarrow> n)\<rparr>;
          d1 = addToQueue (d\<lparr>tasks := (tasks d)(tid \<mapsto> task)\<rparr>) tid
      in (task, emitEvent d1 \<lparr>ev_type = task_created, ev_timestamp = now,
                              ev_agentId = None, ev_taskId = Some tid\<rparr>))"

definition failTask ::
  "TaskDispatcher \<Rightarrow> int \<Rightarrow> string \<Rightarrow> string \<Rightarrow> (error + unit) \<times> TaskDispatcher" where
  "failTask d now tid err =
     (case tasks d tid of
        None \<Rightarrow> (Inl TaskNotFound, d)
      | Some task \<Rightarrow>
          let t1 = task\<lparr>retryCount := retryCount task + 1\<rparr> in
          if retryCount t1 < maxRetries t1 then
            let t2 = t1\<lparr>task_status := Pending, assignedAgentId := None, startedAt := None\<rparr>
            in (Inr (), emitEvent (d\<lparr>tasks := (tasks d)(tid \<mapsto> t2)\<rparr>)
                          \<lparr>ev_type = task_failed, ev_timestamp = now,
                           ev_agentId = None, ev_taskId = Some tid\<rparr>)
          else
            let t2 = t1\<lparr>task_status := Failed, task_error := Some err,
                        completedAt := Some now\<rparr>;
                d1 = d\<lparr>tasks := (tasks d)(tid \<mapsto> t2)\<rparr>;
                rec = (case truthy (assignedAgentId t2) of
                         None \<Rightarrow> (Inr (), registry d1)
                       | Some a \<Rightarrow> recordTaskCompletion (registry d1) now a False);
                r = snd rec
            in (case fst rec of
                  Inl e \<Rightarrow> (Inl e, d1\<lparr>registry := r\<rparr>)
                | Inr u \<Rightarrow>
                    (Inr (), emitEvent (removeFromQueue (d1\<lparr>registry := r\<rparr>) tid)
                               \<lparr>ev_type = task_failed, ev_timestamp = now,
                                ev_agentId = assignedAgentId t2, ev_taskId = Some tid\<rparr>)))"

definition cancelTask ::
  "TaskDispatcher \<Rightarrow> int \<Rightarrow> string \<Rightarrow> (error + unit) \<times> TaskDispatcher" where
  "cancelTask d now tid =
     (case tasks d tid of
        None \<Rightarrow> (Inl TaskNotFound, d)
      | Some task \<Rightarrow>
          let t1 = task\<lparr>task_status := Cancelled, completedAt := Some now\<rparr>;
              d1 = d\<lparr>tasks := (tasks d)(tid \<mapsto> t1)\<rparr>;
              r1 = (case truthy (assignedAgentId t1) of
                      None \<Rightarrow> registry d1
                    | Some a \<Rightarrow>
                        (case getAgent (registry d1) a of
                           None \<Rightarrow> registry d1
                         | Some agent \<Rightarrow>
                             let a1 = agent\<lparr>currentTaskCount :=
                                               max 0 (currentTaskCount agent - 1)\<rparr>;
                                 a2 = (if currentTaskCount a1 = 0
                                       then a1\<lparr>agent_status := Idle\<rparr> else a1)
                             in setAgent (registry d1) a a2))
          in (Inr (), emitEvent (removeFromQueue (d1\<lparr>registry := r1\<rparr>) tid)
                        \<lparr>ev_type = task_cancelled, ev_timestamp = now,
                         ev_agentId = assignedAgentId t1, ev_taskId = Some tid\<rparr>))"


text \<open>
  \<open>findEligibleAgents\<close> filters \<open>getAllAgents()\<close> with the predicate below, which keeps
  the order of the five tests of the source. \<open>x || 1\<close> yields 1 when \<open>x\<close> is undefined
  or zero.
\<close>

definition normalizedTrust :: "FleetAgent \<Rightarrow> real" where
  "normalizedTrust agent =
     1 - (case trustScore agent of
            None \<Rightarrow> 1
          | Some ts \<Rightarrow> if normalized ts = 0 then 1 else normalized ts)"

definition eligible :: "FleetTask \<Rightarrow> FleetAgent \<Rightarrow> bool" where
  "eligible task agent =
     (if requiredCapability task \<notin> set (capabilities agent) then False
      else if agent_status agent \<noteq> Idle \<and> agent_status agent \<noteq> Busy then False
      else if currentTaskCount agent \<ge> maxConcurrentTasks agent then False
      else if tierIndex (maxGovernanceTier agent) < tierIndex (requiredTier task) then False
      else if normalizedTrust agent < minTrustScore task then False
      else True)"

definition findEligibleAgents :: "TaskDispatcher \<Rightarrow> FleetTask \<Rightarrow> FleetAgent list" where
  "findEligibleAgents d task = filter (eligible task) (getAllAgents (registry d))"

text \<open>
  \<open>selectBestAgent\<close> scores every candidate, sorts by descending score (the sort of the
  language is stable, as \<open>sort_key\<close> is) and returns the first entry. Reading the first
  entry of an empty array is the \<open>TypeError\<close> that \<open>None\<close> stands for.
\<close>

definition agentScore :: "int \<Rightarrow> FleetAgent \<Rightarrow> real" where
  "agentScore now agent =
     (1 - (case trustScore agent of
             None \<Rightarrow> 0.5
           | Some ts \<Rightarrow> if normalized ts = 0 then 0.5 else normalized ts)) * 40
     + successRate agent * 30
     + (1 - real_of_int (currentTaskCount agent) / real_of_int (maxConcurrentTasks agent)) * 20
     + max 0 (10 - real_of_int (now - lastActiveAt agent) / (1000 * 60 * 60))"

definition selectBestAgent :: "int \<Rightarrow> FleetAgent list \<Rightarrow> FleetTask \<Rightarrow> FleetAgent option" where
  "selectBestAgent now candidates task =
     (case sort_key (\<lambda>a. - agentScore now a) candidates of
        [] \<Rightarrow> None
      | a # rest \<Rightarrow> Some a)"

text \<open>
  \<open>executeAssignment\<close> changes the task object that \<open>assignTask\<close> or \<open>approveTask\<close> read
  under the key \<open>tid\<close>. The status is set to \<open>assigned\<close> and then to \<open>running\<close> within the
  same call; the model keeps the final value and both events.
\<close>

definition executeAssignment ::
  "TaskDispatcher \<Rightarrow> int \<Rightarrow> string \<Rightarrow> FleetTask \<Rightarrow> FleetAgent
     \<Rightarrow> TaskAssignmentResult \<times> TaskDispatcher" where
  "executeAssignment d now tid task agent =
     (let rr = assignTask_reg (registry d) now (agent_id agent) in
      (case fst rr of
         Inl e \<Rightarrow>
           (\<lparr>success = False, res_taskId = task_id task, res_assignedAgentId = None,
             res_reason = Some (ReasonThrown e)\<rparr>, d\<lparr>registry := snd rr\<rparr>)
       | Inr u \<Rightarrow>
           let t1 = task\<lparr>task_status := Running,
                         assignedAgentId := Some (agent_id agent),
                         startedAt := Some now\<rparr>;
               d1 = d\<lparr>registry := snd rr, tasks := (tasks d)(tid \<mapsto> t1)\<rparr>;
               d2 = emitEvent d1 \<lparr>ev_type = task_assigned, ev_timestamp = now,
                                  ev_agentId = Some (agent_id agent),
                                  ev_taskId = Some (task_id task)\<rparr>;
               d3 = emitEvent d2 \<lparr>ev_type = task_started, ev_timestamp = now,
                                  ev_agentId = Some (agent_id agent),
                                  ev_taskId = Some (task_id task)\<rparr>
           in (\<lparr>success = True, res_taskId = task_id task,
                res_assignedAgentId = Some (agent_id agent), res_reason = None\<rparr>, d3)))"

definition assignTask ::
  "TaskDispatcher \<Rightarrow> int \<Rightarrow> string \<Rightarrow> TaskAssignmentResult \<times> TaskDispatcher" where
  "assignTask d now tid =
     (case tasks d tid of
        None \<Rightarrow>
          (\<lparr>success = False, res_taskId = tid, res_assignedAgentId = None,
            res_reason = Some ReasonTaskNotFound\<rparr>, d)
      | Some task \<Rightarrow>
          if task_status task \<noteq> Pending then
            (\<lparr>success = False, res_taskId = tid, res_assignedAgentId = None,
              res_reason = Some (ReasonNotPending (task_status task))\<rparr>, d)
          else
            let eligibleAgents = findEligibleAgents d task in
            if eligibleAgents = [] then
              (\<lparr>success = False, res_taskId = tid, res_assignedAgentId = None,
                res_reason = Some ReasonNoEligibleAgents\<rparr>, d)
            else
              (case selectBestAgent now eligibleAgents task of
                 None \<Rightarrow>
                   (\<lparr>success = False, res_taskId = tid, res_assignedAgentId = None,
                     res_reason = Some (ReasonThrown TypeError)\<rparr>, d)
               | Some bestAgent \<Rightarrow>
                   if requiresApproval task then
                     let t1 = task\<lparr>task_status := AwaitingApproval,
                                   approvalVotes := Some []\<rparr>;
                         d1 = emitEvent (d\<lparr>tasks := (tasks d)(tid \<mapsto> t1)\<rparr>)
                                \<lparr>ev_type = task_assigned, ev_timestamp = now,
                                 ev_agentId = Some (agent_id bestAgent),
                                 ev_taskId = Some tid\<rparr>
                     in (\<lparr>success = True, res_taskId = tid,
                          res_assignedAgentId = Some (agent_id bestAgent),
                          res_reason = Some ReasonAwaitingApproval\<rparr>, d1)
                   else executeAssignment d now tid task bestAgent))"

text \<open>
  \<open>approveTask\<close> looks the agent up with \<open>getAgent(task.assignedAgentId!)\<close>: the
  non-null assertion is erased at run time, and \<open>get\<close> of an undefined key finds nothing.
\<close>

definition approveTask ::
  "TaskDispatcher \<Rightarrow> int \<Rightarrow> string \<Rightarrow> string \<Rightarrow> bool \<times> TaskDispatcher" where
  "approveTask d now tid aid =
     (case tasks d tid of
        None \<Rightarrow> (False, d)
      | Some task \<Rightarrow>
          if task_status task \<noteq> AwaitingApproval then (False, d)
          else
            let votes0 = (case approvalVotes task of None \<Rightarrow> [] | Some vs \<Rightarrow> vs);
                t0 = task\<lparr>approvalVotes := Some votes0\<rparr>
            in if aid \<in> set votes0 then (False, d\<lparr>tasks := (tasks d)(tid \<mapsto> t0)\<rparr>)
               else
                 let t1 = t0\<lparr>approvalVotes := Some (votes0 @ [aid])\<rparr>;
                     d1 = emitEvent (d\<lparr>tasks := (tasks d)(tid \<mapsto> t1)\<rparr>)
                            \<lparr>ev_type = roundtable_vote, ev_timestamp = now,
                             ev_agentId = Some aid, ev_taskId = Some tid\<rparr>
                 in if int (length (votes0 @ [aid])) \<ge> requiredApprovals t1 then
                      (case (case assignedAgentId t1 of
                               None \<Rightarrow> None
                             | Some a \<Rightarrow> getAgent (registry d1) a) of
                         None \<Rightarrow> (True, d1)
                       | Some agent \<Rightarrow> (True, snd (executeAssignment d1 now tid t1 agent)))
                    else (True, d1))"

definition completeTask ::
  "TaskDispatcher \<Rightarrow> int \<Rightarrow> string \<Rightarrow> (error + unit) \<times> TaskDispatcher" where
  "completeTask d now tid =
     (case tasks d tid of
        None \<Rightarrow> (Inl TaskNotFound, d)
      | Some task \<Rightarrow>
          let t1 = task\<lparr>task_status := Completed, completedAt := Some now\<rparr>;
              d1 = d\<lparr>tasks := (tasks d)(tid \<mapsto> t1)\<rparr>;
              rec = (case truthy (assignedAgentId t1) of
                       None \<Rightarrow> (Inr (), registry d1)
                     | Some a \<Rightarrow> recordTaskCompletion (registry d1) now a True);
              r = snd rec
          in (case fst rec of
                Inl e \<Rightarrow> (Inl e, d1\<lparr>registry := r\<rparr>)
              | Inr u \<Rightarrow>
                  (Inr (), emitEvent (removeFromQueue (d1\<lparr>registry := r\<rparr>) tid)
                             \<lparr>ev_type = task_completed, ev_timestamp = now,
                              ev_agentId = assignedAgentId t1, ev_taskId = Some tid\<rparr>)))"

section \<open>Roundtable governance (module fleet/governance)\<close>

datatype Vote = Approve | Reject | Abstain

datatype SessionStatus = Active | Approved | Rejected | Expired

text \<open>
  The \<open>votes\<close> map of a session is an association list: \<open>has\<close> is a lookup, \<open>size\<close> the
  length and \<open>values()\<close> the second components; \<open>castVote\<close> only ever adds a key that is
  not there yet. The governance manager reads the agent registry and never writes to it,
  so the registry is an argument of its operations.
\<close>

record RoundtableSession =
  session_id :: string
  session_taskId :: "string option"
  participants :: "string list"
  votes :: "(string \<times> Vote) list"
  requiredConsensus :: real
  session_status :: SessionStatus
  session_createdAt :: int
  expiresAt :: int

record RoundtableOptions =
  ro_taskId :: "string option"
  ro_requiredTier :: GovernanceTier
  customConsensus :: "real option"
  ro_timeoutMs :: "int option"
  specificParticipants :: "string list option"

record VoteResult =
  vr_success :: bool
  vr_sessionId :: string
  currentVotes :: int
  requiredVotes :: int
  vr_status :: SessionStatus

record GovernanceManager =
  sessions :: "string \<rightharpoonup> RoundtableSession"
  gov_events :: "FleetEvent list"

definition newGovernanceManager :: GovernanceManager where
  "newGovernanceManager = \<lparr>sessions = Map.empty, gov_events = []\<rparr>"

definition emitEvent_gov :: "GovernanceManager \<Rightarrow> FleetEvent \<Rightarrow> GovernanceManager" where
  "emitEvent_gov g e = g\<lparr>gov_events := gov_events g @ [e]\<rparr>"

definition tierEligible :: "GovernanceTier \<Rightarrow> FleetAgent \<Rightarrow> bool" where
  "tierEligible tier agent =
     (if agent_status agent = Suspended \<or> agent_status agent = Quarantined then False
      else if tierIndex (maxGovernanceTier agent) < tierIndex tier then False
      else
        let trustLevel = (case trustScore agent of None \<Rightarrow> MEDIUM | Some ts \<Rightarrow> level ts)
        in if trustLevel = CRITICAL then False
           else if trustLevel = LOW \<and> tierIndex tier > 1 then False
           else if trustLevel = MEDIUM \<and> tierIndex tier > 3 then False
           else True)"

definition getAgentsForTier :: "AgentRegistry \<Rightarrow> GovernanceTier \<Rightarrow> FleetAgent list" where
  "getAgentsForTier r tier = filter (tierEligible tier) (getAllAgents r)"

definition createRoundtable ::
  "GovernanceManager \<Rightarrow> AgentRegistry \<Rightarrow> int \<Rightarrow> string \<Rightarrow> RoundtableOptions
     \<Rightarrow> (error + RoundtableSession) \<times> GovernanceManager" where
  "createRoundtable g reg now sid opts =
     (let tier = ro_requiredTier opts;
          ps = (case specificParticipants opts of
                  Some given \<Rightarrow> given
                | None \<Rightarrow> map agent_id (getAgentsForTier reg tier))
      in if int (length ps) < tier_requiredTongues tier then (Inl NotEnoughAgents, g)
         else
           let session =
                 \<lparr>session_id = sid,
                  session_taskId = ro_taskId opts,
                  participants = ps,
                  votes = [],
                  requiredConsensus =
                    (case customConsensus opts of
                       Some c \<Rightarrow> c
                     | None \<Rightarrow> real_of_int (tier_requiredTongues tier) / real (length ps)),
                  session_status = Active,
                  session_createdAt = now,
                  expiresAt = now + (case ro_timeoutMs opts of
                                       None \<Rightarrow> 300000
                                     | Some n \<Rightarrow> if n = 0 then 300000 else n)\<rparr>;
               g1 = emitEvent_gov (g\<lparr>sessions := (sessions g)(sid \<mapsto> session)\<rparr>)
                      \<lparr>ev_type = roundtable_started, ev_timestamp = now,
                       ev_agentId = None, ev_taskId = None\<rparr>
           in (Inr session, g1))"

definition expireSession :: "GovernanceManager \<Rightarrow> int \<Rightarrow> string \<Rightarrow> GovernanceManager" where
  "expireSession g now sid =
     (case sessions g sid of
        None \<Rightarrow> g
      | Some session \<Rightarrow>
          if session_status session \<noteq> Active then g
          else emitEvent_gov
                 (g\<lparr>sessions := (sessions g)(sid \<mapsto> session\<lparr>session_status := Expired\<rparr>)\<rparr>)
                 \<lparr>ev_type = roundtable_concluded, ev_timestamp = now,
                  ev_agentId = None, ev_taskId = None\<rparr>)"

definition approvals :: "RoundtableSession \<Rightarrow> nat" where
  "approvals session = length (filter (\<lambda>v. v = Approve) (map snd (votes session)))"

definition rejections :: "RoundtableSession \<Rightarrow> nat" where
  "rejections session = length (filter (\<lambda>v. v = Reject) (map snd (votes session)))"

definition requiredVotesOf :: "RoundtableSession \<Rightarrow> int" where
  "requiredVotesOf session =
     \<lceil>real (length (participants session)) * requiredConsensus session\<rceil>"

definition conclude ::
  "GovernanceManager \<Rightarrow> int \<Rightarrow> string \<Rightarrow> RoundtableSession \<Rightarrow> SessionStatus
     \<Rightarrow> GovernanceManager" where
  "conclude g now sid session st =
     emitEvent_gov (g\<lparr>sessions := (sessions g)(sid \<mapsto> session\<lparr>session_status := st\<rparr>)\<rparr>)
       \<lparr>ev_type = roundtable_concluded, ev_timestamp = now,
        ev_agentId = None, ev_taskId = None\<rparr>"

definition checkConsensus ::
  "GovernanceManager \<Rightarrow> int \<Rightarrow> string \<Rightarrow> RoundtableSession \<Rightarrow> bool \<times> GovernanceManager" where
  "checkConsensus g now sid session =
     (let totalVotes = length (votes session) in
      if int (approvals session) \<ge> requiredVotesOf session
      then (True, conclude g now sid session Approved)
      else if real (rejections session) > real (length (participants session)) / 2
      then (True, conclude g now sid session Rejected)
      else if totalVotes = length (participants session)
      then (True, conclude g now sid session Rejected)
      else (False, g))"

definition castVote ::
  "GovernanceManager \<Rightarrow> AgentRegistry \<Rightarrow> int \<Rightarrow> string \<Rightarrow> string \<Rightarrow> Vote
     \<Rightarrow> (error + VoteResult) \<times> GovernanceManager" where
  "castVote g reg now sid aid vote =
     (case sessions g sid of
        None \<Rightarrow> (Inl SessionNotFound, g)
      | Some session \<Rightarrow>
          if session_status session \<noteq> Active then (Inl SessionNotActive, g)
          else if expiresAt session < now then (Inl SessionExpired, expireSession g now sid)
          else if aid \<notin> set (participants session) then (Inl NotParticipant, g)
          else if map_of (votes session) aid \<noteq> None then (Inl AlreadyVoted, g)
          else
            (case getAgent reg aid of
               None \<Rightarrow> (Inl AgentNotFound, g)
             | Some agent \<Rightarrow>
                 if agent_status agent = Suspended \<or> agent_status agent = Quarantined
                 then (Inl AgentCannotVote, g)
                 else
                   let s1 = session\<lparr>votes := votes session @ [(aid, vote)]\<rparr>;
                       g1 = emitEvent_gov (g\<lparr>sessions := (sessions g)(sid \<mapsto> s1)\<rparr>)
                              \<lparr>ev_type = roundtable_vote, ev_timestamp = now,
                               ev_agentId = Some aid, ev_taskId = None\<rparr>;
                       g2 = snd (checkConsensus g1 now sid s1)
                   in (Inr \<lparr>vr_success = True, vr_sessionId = sid,
                             currentVotes = int (length (votes s1)),
                             requiredVotes = requiredVotesOf s1,
                             vr_status = (case sessions g2 sid of
                                            None \<Rightarrow> session_status s1
                                          | Some s2 \<Rightarrow> session_status s2)\<rparr>, g2)))"

section \<open>Polly pads (module fleet/polly-pad)\<close>

datatype DimensionalState = POLLY | QUASI | DEMI | COLLAPSED

record PollyPad =
  pad_id :: string
  pad_agentId :: string
  nu :: real
  dimensionalState :: DimensionalState
  fluxRate :: real
  targetNu :: "real option"
  swarmId :: "string option"
  coherenceScore :: real
  lastSwarmSync :: "int option"
  pad_updatedAt :: int

record PollyPadManager =
  pads :: "string \<rightharpoonup> PollyPad"

text \<open>
  The repository defines \<open>getDimensionalState\<close> twice. The function of module
  fleet/polly-pad is the one that the pad manager calls and that the swarm coordinator
  imports; the function of module fleet/types reads the table \<open>DIMENSIONAL_THRESHOLDS\<close>.
\<close>

definition getDimensionalState :: "real \<Rightarrow> DimensionalState" where
  "getDimensionalState x =
     (if x \<ge> 0.9 then POLLY
      else if x \<ge> 0.5 then QUASI
      else if x > 0.1 then DEMI
      else COLLAPSED)"

definition getDimensionalState_types :: "real \<Rightarrow> DimensionalState" where
  "getDimensionalState_types x =
     (if x \<ge> 0.8 then POLLY
      else if x \<ge> 0.5 then QUASI
      else if x \<ge> 0.1 then DEMI
      else COLLAPSED)"

definition createPad ::
  "PollyPadManager \<Rightarrow> int \<Rightarrow> string \<Rightarrow> string \<Rightarrow> PollyPad \<times> PollyPadManager" where
  "createPad m now pid agentId =
     (let pad = \<lparr>pad_id = pid, pad_agentId = agentId, nu = 1.0, dimensionalState = POLLY,
                  fluxRate = 0, targetNu = None, swarmId = None, coherenceScore = 1.0,
                  lastSwarmSync = None, pad_updatedAt = now\<rparr>
      in (pad, m\<lparr>pads := (pads m)(pid \<mapsto> pad)\<rparr>))"

definition newPollyPadManager :: PollyPadManager where
  "newPollyPadManager = \<lparr>pads = Map.empty\<rparr>"

definition getPad :: "PollyPadManager \<Rightarrow> string \<Rightarrow> PollyPad option" where
  "getPad m pid = pads m pid"

text \<open>\<open>updateFlux\<close>, without the audit entry it files when the label changes.\<close>

definition updateFlux ::
  "PollyPadManager \<Rightarrow> int \<Rightarrow> string \<Rightarrow> real \<Rightarrow> PollyPadManager option" where
  "updateFlux m now pid newNu =
     (case pads m pid of
        None \<Rightarrow> None
      | Some pad \<Rightarrow>
          let n1 = max 0 (min 1 newNu)
          in Some (m\<lparr>pads := (pads m)(pid \<mapsto>
                     pad\<lparr>nu := n1, dimensionalState := getDimensionalState n1,
                         pad_updatedAt := now\<rparr>)\<rparr>))"

definition setTargetFlux ::
  "PollyPadManager \<Rightarrow> string \<Rightarrow> real \<Rightarrow> real \<Rightarrow> PollyPadManager option" where
  "setTargetFlux m pid target rate =
     (case pads m pid of
        None \<Rightarrow> None
      | Some pad \<Rightarrow>
          Some (m\<lparr>pads := (pads m)(pid \<mapsto>
                  pad\<lparr>targetNu := Some (max 0 (min 1 target)), fluxRate := rate\<rparr>)\<rparr>))"

definition stepFlux_pad :: "int \<Rightarrow> PollyPad \<Rightarrow> PollyPad" where
  "stepFlux_pad now pad =
     (case targetNu pad of
        None \<Rightarrow> pad
      | Some target \<Rightarrow>
          let diff = target - nu pad;
              p1 = (if \<bar>diff\<bar> < 0.001
                    then pad\<lparr>nu := target, targetNu := None, fluxRate := 0\<rparr>
                    else pad\<lparr>nu := max 0 (min 1 (nu pad + sgn diff * fluxRate pad))\<rparr>)
          in p1\<lparr>dimensionalState := getDimensionalState (nu p1), pad_updatedAt := now\<rparr>)"

definition stepFlux :: "PollyPadManager \<Rightarrow> int \<Rightarrow> string \<Rightarrow> PollyPadManager" where
  "stepFlux m now pid =
     (case pads m pid of
        None \<Rightarrow> m
      | Some pad \<Rightarrow> m\<lparr>pads := (pads m)(pid \<mapsto> stepFlux_pad now pad)\<rparr>)"

section \<open>Swarm coordinator (module fleet/swarm)\<close>

record SwarmConfig =
  swarm_id :: string
  minCoherence :: real
  fluxDecayRate :: real
  syncIntervalMs :: int
  maxPads :: int

record FluxODEParams =
  alpha :: real
  beta :: real
  gamma :: real
  dt :: real

definition DEFAULT_FLUX_ODE :: FluxODEParams where
  "DEFAULT_FLUX_ODE = \<lparr>alpha = 0.1, beta = 0.01, gamma = 0.05, dt = 1.0\<rparr>"

text \<open>The snapshot of \<open>getSwarmState\<close>, without its name and time stamp.\<close>

record SwarmState =
  st_padIds :: "string list"
  avgNu :: real
  coherence :: real
  dominantState :: DimensionalState
  activePads :: nat
  collapsedPads :: nat

text \<open>
  A swarm's \<open>Set\<close> of pad identifiers is the list of its members in insertion order.
\<close>

record SwarmCoordinator =
  swarms :: "string \<rightharpoonup> SwarmConfig"
  swarmPads :: "string \<rightharpoonup> string list"
  padManager :: PollyPadManager
  fluxParams :: FluxODEParams

record SwarmOptions =
  so_minCoherence :: "real option"
  so_fluxDecayRate :: "real option"
  so_syncIntervalMs :: "int option"
  so_maxPads :: "int option"

definition newSwarmCoordinator :: "PollyPadManager \<Rightarrow> FluxODEParams \<Rightarrow> SwarmCoordinator" where
  "newSwarmCoordinator m prm =
     \<lparr>swarms = Map.empty, swarmPads = Map.empty, padManager = m, fluxParams = prm\<rparr>"

definition createSwarm :: "SwarmCoordinator \<Rightarrow> string \<Rightarrow> SwarmOptions \<Rightarrow> SwarmCoordinator" where
  "createSwarm c sid opts =
     (let swarm = \<lparr>swarm_id = sid,
                    minCoherence = (case so_minCoherence opts of None \<Rightarrow> 0.5 | Some x \<Rightarrow> x),
                    fluxDecayRate = (case so_fluxDecayRate opts of None \<Rightarrow> 0.01 | Some x \<Rightarrow> x),
                    syncIntervalMs = (case so_syncIntervalMs opts of None \<Rightarrow> 5000 | Some x \<Rightarrow> x),
                    maxPads = (case so_maxPads opts of None \<Rightarrow> 10 | Some x \<Rightarrow> x)\<rparr>
      in c\<lparr>swarms := (swarms c)(sid \<mapsto> swarm), swarmPads := (swarmPads c)(sid \<mapsto> [])\<rparr>)"

definition setPad :: "SwarmCoordinator \<Rightarrow> string \<Rightarrow> PollyPad \<Rightarrow> SwarmCoordinator" where
  "setPad c pid pad =
     c\<lparr>padManager := (padManager c)\<lparr>pads := (pads (padManager c))(pid \<mapsto> pad)\<rparr>\<rparr>"

definition removePadFromSwarm ::
  "SwarmCoordinator \<Rightarrow> string \<Rightarrow> string \<Rightarrow> bool \<times> SwarmCoordinator" where
  "removePadFromSwarm c sid pid =
     (case swarmPads c sid of
        None \<Rightarrow> (False, c)
      | Some padIds \<Rightarrow>
          if pid \<in> set padIds then
            let c1 = c\<lparr>swarmPads := (swarmPads c)(sid \<mapsto> removeAll pid padIds)\<rparr>
            in (case getPad (padManager c1) pid of
                  None \<Rightarrow> (True, c1)
                | Some pad \<Rightarrow>
                    (True, setPad c1 pid (pad\<lparr>swarmId := None, coherenceScore := 1.0\<rparr>)))
          else (False, c))"

definition addPadToSwarm ::
  "SwarmCoordinator \<Rightarrow> int \<Rightarrow> string \<Rightarrow> string \<Rightarrow> bool \<times> SwarmCoordinator" where
  "addPadToSwarm c now sid pid =
     (case swarms c sid of
        None \<Rightarrow> (False, c)
      | Some swarm \<Rightarrow>
          (case swarmPads c sid of
             None \<Rightarrow> (False, c)
           | Some padIds \<Rightarrow>
               if int (length padIds) \<ge> maxPads swarm then (False, c)
               else
                 (case getPad (padManager c) pid of
                    None \<Rightarrow> (False, c)
                  | Some pad \<Rightarrow>
                      let c1 = (case truthy (swarmId pad) of
                                  None \<Rightarrow> c
                                | Some old \<Rightarrow> snd (removePadFromSwarm c old pid));
                          ids1 = (case swarmPads c1 sid of None \<Rightarrow> [] | Some ids \<Rightarrow> ids);
                          ids2 = (if pid \<in> set ids1 then ids1 else ids1 @ [pid]);
                          c2 = c1\<lparr>swarmPads := (swarmPads c1)(sid \<mapsto> ids2)\<rparr>
                      in (case getPad (padManager c2) pid of
                            None \<Rightarrow> (True, c2)
                          | Some pad1 \<Rightarrow>
                              (True, setPad c2 pid
                                       (pad1\<lparr>swarmId := Some sid,
                                             lastSwarmSync := Some now\<rparr>))))))"

definition getSwarmPads :: "SwarmCoordinator \<Rightarrow> string \<Rightarrow> PollyPad list" where
  "getSwarmPads c sid =
     (case swarmPads c sid of
        None \<Rightarrow> []
      | Some padIds \<Rightarrow> List.map_filter (getPad (padManager c)) padIds)"

definition stateCount :: "PollyPad list \<Rightarrow> DimensionalState \<Rightarrow> nat" where
  "stateCount ps st = length (filter (\<lambda>p. dimensionalState p = st) ps)"

fun dominantOf :: "(DimensionalState \<times> nat) list \<Rightarrow> DimensionalState \<times> nat
                    \<Rightarrow> DimensionalState \<times> nat" where
  "dominantOf [] best = best"
| "dominantOf ((st, n) # rest) best =
     dominantOf rest (if n > snd best then (st, n) else best)"

definition getSwarmState :: "SwarmCoordinator \<Rightarrow> string \<Rightarrow> SwarmState option" where
  "getSwarmState c sid =
     (case swarms c sid of
        None \<Rightarrow> None
      | Some swarm \<Rightarrow>
          (case swarmPads c sid of
             None \<Rightarrow> None
           | Some padIds \<Rightarrow>
               let ps = getSwarmPads c sid in
               if ps = [] then
                 Some \<lparr>st_padIds = [], avgNu = 0, coherence = 0, dominantState = COLLAPSED,
                       activePads = 0, collapsedPads = 0\<rparr>
               else
                 let avg = sum_list (map nu ps) / real (length ps);
                     variance = sum_list (map (\<lambda>p. (nu p - avg) ^ 2) ps) / real (length ps);
                     coh = max 0 (1 - sqrt variance * 2);
                     counts = map (\<lambda>st. (st, stateCount ps st)) [POLLY, QUASI, DEMI, COLLAPSED]
                 in Some \<lparr>st_padIds = padIds, avgNu = avg, coherence = coh,
                          dominantState = fst (dominantOf counts (COLLAPSED, 0)),
                          activePads = stateCount ps POLLY + stateCount ps QUASI,
                          collapsedPads = stateCount ps COLLAPSED\<rparr>))"

text \<open>
  The \<open>for\<close> loops of \<open>syncSwarm\<close> and \<open>stepFluxODE\<close> visit the pads that
  \<open>getSwarmPads\<close> found and change each pad object in place.
\<close>

fun forEachPad ::
  "(PollyPad \<Rightarrow> PollyPad) \<Rightarrow> string list \<Rightarrow> PollyPadManager \<Rightarrow> PollyPadManager" where
  "forEachPad f [] m = m"
| "forEachPad f (pid # rest) m =
     forEachPad f rest
       (case pads m pid of
          None \<Rightarrow> m
        | Some pad \<Rightarrow> m\<lparr>pads := (pads m)(pid \<mapsto> f pad)\<rparr>)"

definition memberIds :: "SwarmCoordinator \<Rightarrow> string \<Rightarrow> string list" where
  "memberIds c sid = (case swarmPads c sid of None \<Rightarrow> [] | Some padIds \<Rightarrow> padIds)"

definition sync_pad :: "SwarmState \<Rightarrow> int \<Rightarrow> PollyPad \<Rightarrow> PollyPad" where
  "sync_pad state now pad =
     (let distance = \<bar>nu pad - avgNu state\<bar>
      in pad\<lparr>coherenceScore := max 0 (1 - distance), lastSwarmSync := Some now\<rparr>)"

definition syncSwarm :: "SwarmCoordinator \<Rightarrow> int \<Rightarrow> string \<Rightarrow> SwarmCoordinator" where
  "syncSwarm c now sid =
     (case getSwarmState c sid of
        None \<Rightarrow> c
      | Some state \<Rightarrow>
          c\<lparr>padManager := forEachPad (sync_pad state now) (memberIds c sid) (padManager c)\<rparr>)"

definition ode_pad :: "FluxODEParams \<Rightarrow> SwarmConfig \<Rightarrow> SwarmState \<Rightarrow> PollyPad \<Rightarrow> PollyPad" where
  "ode_pad prm swarm state pad =
     (let nuTarget = (case targetNu pad of None \<Rightarrow> avgNu state | Some t \<Rightarrow> t);
          attraction = alpha prm * (nuTarget - nu pad);
          decay = beta prm * fluxDecayRate swarm;
          coherenceBoost = gamma prm * coherence state
                           * (if coherenceScore pad > 0.5 then 1 else - 1);
          dNu = (attraction - decay + coherenceBoost) * dt prm;
          nu1 = max 0 (min 1 (nu pad + dNu))
      in pad\<lparr>nu := nu1, dimensionalState := getDimensionalState nu1, fluxRate := \<bar>dNu\<bar>\<rparr>)"

definition stepFluxODE :: "SwarmCoordinator \<Rightarrow> string \<Rightarrow> SwarmCoordinator" where
  "stepFluxODE c sid =
     (case swarms c sid of
        None \<Rightarrow> c
      | Some swarm \<Rightarrow>
          (case getSwarmState c sid of
             None \<Rightarrow> c
           | Some state \<Rightarrow>
               c\<lparr>padManager := forEachPad (ode_pad (fluxParams c) swarm state)
                                  (memberIds c sid) (padManager c)\<rparr>))"

definition revivePad :: "SwarmCoordinator \<Rightarrow> string \<Rightarrow> real \<Rightarrow> SwarmCoordinator" where
  "revivePad c pid target =
     (case getPad (padManager c) pid of
        None \<Rightarrow> c
      | Some pad \<Rightarrow>
          c\<lparr>padManager := (padManager c)\<lparr>pads := (pads (padManager c))(pid \<mapsto>
               pad\<lparr>nu := 0.1, targetNu := Some target, fluxRate := 0.02,
                   dimensionalState := DEMI\<rparr>)\<rparr>\<rparr>)"

section \<open>Scenario inputs\<close>

text \<open>
  Concrete states for the scenarios evaluated below: a trust manager that answers every
  query with the same score, one registered agent \<open>a1\<close> that can do \<open>testing\<close> up to the
  highest tier, and one task \<open>t1\<close> of the lowest tier with the default retry ceiling.
\<close>

definition constTrust :: "real \<Rightarrow> TrustLevel \<Rightarrow> string \<Rightarrow> real list \<Rightarrow> TrustScore" where
  "constTrust n l i v = \<lparr>normalized = n, level = l\<rparr>"

definition scn_agent :: "AgentStatus \<Rightarrow> int \<Rightarrow> FleetAgent" where
  "scn_agent st cnt =
     \<lparr>agent_id = ''a1'', capabilities = [testing], agent_status = st,
      trustVector = [0.5, 0.5, 0.5, 0.5, 0.5, 0.5],
      trustScore = Some \<lparr>normalized = 0.2, level = HIGH\<rparr>,
      maxConcurrentTasks = 3, currentTaskCount = cnt, maxGovernanceTier = DR,
      lastActiveAt = 0, tasksCompleted = 0, successRate = 1\<rparr>"

definition scn_registry :: "TrustLevel \<Rightarrow> FleetAgent \<Rightarrow> AgentRegistry" where
  "scn_registry l a =
     \<lparr>agents = [(agent_id a, a)], computeTrustScore = constTrust 0.2 l, reg_events = []\<rparr>"

definition scn_task :: "TaskStatus \<Rightarrow> string option \<Rightarrow> bool \<Rightarrow> FleetTask" where
  "scn_task st asg appr =
     \<lparr>task_id = ''t1'', requiredCapability = testing, requiredTier = KO, priority = PMedium,
      task_status = st, assignedAgentId = asg, task_error = None, minTrustScore = 0.1,
      requiresApproval = appr, approvalVotes = None, requiredApprovals = 1, createdAt = 0,
      startedAt = None, completedAt = None, timeoutMs = 300000, retryCount = 0,
      maxRetries = 3\<rparr>"

definition scn_dispatcher :: "FleetTask \<Rightarrow> FleetAgent \<Rightarrow> TaskDispatcher" where
  "scn_dispatcher t a =
     \<lparr>tasks = [task_id t \<mapsto> t], taskQueue = [task_id t],
      registry = scn_registry HIGH a, disp_events = []\<rparr>"

text \<open>
  A roundtable session \<open>s1\<close> that expires at time 100, and a swarm \<open>s\<close> with the default
  configuration that holds the given pads.
\<close>

definition scn_session ::
  "string list \<Rightarrow> (string \<times> Vote) list \<Rightarrow> real \<Rightarrow> RoundtableSession" where
  "scn_session ps vs f =
     \<lparr>session_id = ''s1'', session_taskId = None, participants = ps, votes = vs,
      requiredConsensus = f, session_status = Active, session_createdAt = 0,
      expiresAt = 100\<rparr>"

definition scn_governance :: "RoundtableSession \<Rightarrow> GovernanceManager" where
  "scn_governance s = \<lparr>sessions = [session_id s \<mapsto> s], gov_events = []\<rparr>"

definition scn_pad :: "string \<Rightarrow> real \<Rightarrow> real option \<Rightarrow> real \<Rightarrow> PollyPad" where
  "scn_pad pid x target rate =
     \<lparr>pad_id = pid, pad_agentId = pid, nu = x, dimensionalState = getDimensionalState x,
      fluxRate = rate, targetNu = target, swarmId = Some ''s'', coherenceScore = 1,
      lastSwarmSync = None, pad_updatedAt = 0\<rparr>"

definition scn_padManager :: "PollyPad list \<Rightarrow> PollyPadManager" where
  "scn_padManager ps = \<lparr>pads = map_of (map (\<lambda>p. (pad_id p, p)) ps)\<rparr>"

definition scn_coordinator :: "PollyPad list \<Rightarrow> SwarmCoordinator" where
  "scn_coordinator ps =
     \<lparr>swarms = [''s'' \<mapsto> \<lparr>swarm_id = ''s'', minCoherence = 0.5, fluxDecayRate = 0.01,
                           syncIntervalMs = 5000, maxPads = 10\<rparr>],
      swarmPads = [''s'' \<mapsto> map pad_id ps],
      padManager = scn_padManager ps,
      fluxParams = DEFAULT_FLUX_ODE\<rparr>"

text \<open>
  Repeated calls of \<open>stepFlux\<close> for one pad, one per clock reading, and repeated calls of
  \<open>stepFluxODE\<close> for one swarm.
\<close>

definition stepFlux_times :: "PollyPadManager \<Rightarrow> string \<Rightarrow> int list \<Rightarrow> PollyPadManager" where
  "stepFlux_times m pid clock = fold (\<lambda>now m'. stepFlux m' now pid) clock m"

definition stepFluxODE_times :: "SwarmCoordinator \<Rightarrow> string \<Rightarrow> nat \<Rightarrow> SwarmCoordinator" where
  "stepFluxODE_times c sid n = ((\<lambda>c'. stepFluxODE c' sid) ^^ n) c"

section \<open>Task dispatcher: retries, cancellation, eligibility, approval\<close>

lemma selectBestAgent_mem:
  assumes "candidates \<noteq> []"
  shows "\<exists>a. selectBestAgent now candidates task = Some a \<and> a \<in> set candidates"
proof -
  let ?s = "sort_key (\<lambda>a. - agentScore now a) candidates"
  have "set ?s = set candidates" by simp
  moreover have "?s \<noteq> []" using assms by (metis length_sort length_0_conv)
  ultimately show ?thesis
    by (cases ?s) (auto simp: selectBestAgent_def)
qed

lemma executeAssignment_agent:
  "executeAssignment d now tid task agent = (res, d') \<Longrightarrow> res_assignedAgentId res = Some aid
     \<Longrightarrow> agent_id agent = aid"
  by (auto simp: executeAssignment_def Let_def split: sum.splits)

lemma eligibleD:
  "eligible task agent \<Longrightarrow>
     requiredCapability task \<in> set (capabilities agent) \<and>
     (agent_status agent = Idle \<or> agent_status agent = Busy) \<and>
     currentTaskCount agent < maxConcurrentTasks agent \<and>
     tierIndex (requiredTier task) \<le> tierIndex (maxGovernanceTier agent) \<and>
     minTrustScore task \<le> normalizedTrust agent"
  by (auto simp: eligible_def split: if_splits)

text \<open>
  What \<open>failTask\<close> does to the task: the counter is incremented first and compared with
  the ceiling afterwards.
\<close>

lemma failTask_status:
  assumes "tasks d tid = Some task"
  shows "\<exists>t'. tasks (snd (failTask d now tid err)) tid = Some t'
           \<and> retryCount t' = retryCount task + 1
           \<and> task_status t' = (if retryCount task + 1 < maxRetries task then Pending else Failed)"
  using assms
  by (auto simp: failTask_def Let_def emitEvent_def removeFromQueue_def
      split: option.splits sum.splits)

text \<open>
  Claim C4. With \<open>maxRetries = 3\<close> the first two failure reports return the task to
  \<open>pending\<close> and the third one already makes it \<open>failed\<close>: the code never grants the third
  retry that the claim and the field name promise.
\<close>

theorem failTask_third_report_is_terminal:
  "(let d1 = snd (failTask (scn_dispatcher (scn_task Pending None False) (scn_agent Idle 0))
                    1 ''t1'' ''boom'');
        d2 = snd (failTask d1 2 ''t1'' ''boom'');
        d3 = snd (failTask d2 3 ''t1'' ''boom'')
    in (map_option task_status (tasks d1 ''t1''), map_option task_status (tasks d2 ''t1''),
        map_option task_status (tasks d3 ''t1''), map_option retryCount (tasks d3 ''t1'')))
   = (Some Pending, Some Pending, Some Failed, Some 3)"
  by (simp add: scn_dispatcher_def scn_task_def failTask_def emitEvent_def removeFromQueue_def
      truthy_def Let_def)

text \<open>
  Claim C10. \<open>cancelTask\<close> has no precondition on the status: every existing task ends
  \<open>cancelled\<close> with the completion time stamp set, and when an agent is recorded on the
  task and still registered, its task count is decremented, floored at zero.
\<close>

theorem cancelTask_unconditional:
  assumes "tasks d tid = Some task"
  shows "fst (cancelTask d now tid) = Inr ()
         \<and> (\<exists>t'. tasks (snd (cancelTask d now tid)) tid = Some t'
                \<and> task_status t' = Cancelled \<and> completedAt t' = Some now)
         \<and> (\<forall>a agent. assignedAgentId task = Some a \<and> a \<noteq> []
                \<and> getAgent (registry d) a = Some agent
              \<longrightarrow> (\<exists>agent'. getAgent (registry (snd (cancelTask d now tid))) a = Some agent'
                     \<and> currentTaskCount agent' = max 0 (currentTaskCount agent - 1)))"
  using assms
  by (auto simp: cancelTask_def Let_def emitEvent_def removeFromQueue_def truthy_def
      getAgent_def setAgent_def AList.update_conv' split: option.splits)

theorem cancelTask_unconditional_witness:
  "tasks (scn_dispatcher (scn_task Completed (Some ''a1'') False) (scn_agent Busy 0)) ''t1''
     = Some (scn_task Completed (Some ''a1'') False)
   \<and> map_option task_status
       (tasks (snd (cancelTask (scn_dispatcher (scn_task Completed (Some ''a1'') False)
                                  (scn_agent Busy 0)) 7 ''t1'')) ''t1'') = Some Cancelled
   \<and> map_option currentTaskCount
       (getAgent (registry (snd (cancelTask (scn_dispatcher
            (scn_task Completed (Some ''a1'') False) (scn_agent Busy 0)) 7 ''t1''))) ''a1'')
     = Some 0"
proof -
  let ?t = "scn_task Completed (Some ''a1'') False"
  let ?d = "scn_dispatcher ?t (scn_agent Busy 0)"
  have h: "tasks ?d ''t1'' = Some ?t"
    by (simp add: scn_dispatcher_def scn_task_def)
  have a: "assignedAgentId ?t = Some ''a1'' \<and> ''a1'' \<noteq> []
           \<and> getAgent (registry ?d) ''a1'' = Some (scn_agent Busy 0)"
    by (simp add: scn_dispatcher_def scn_task_def scn_registry_def scn_agent_def getAgent_def)
  from cancelTask_unconditional [OF h, of 7] a
  have "(\<exists>t'. tasks (snd (cancelTask ?d 7 ''t1'')) ''t1'' = Some t' \<and> task_status t' = Cancelled)
        \<and> (\<exists>agent'. getAgent (registry (snd (cancelTask ?d 7 ''t1''))) ''a1'' = Some agent'
               \<and> currentTaskCount agent' = max 0 (currentTaskCount (scn_agent Busy 0) - 1))"
    by blast
  then show ?thesis using h by (auto simp: scn_agent_def)
qed

text \<open>
  Claim C3. Whenever \<open>assignTask\<close> names an agent, either assigning it directly or holding
  it for approval, that agent is registered and passed every test of
  \<open>findEligibleAgents\<close>: its tier ceiling is at least the task's tier, its trust (one minus
  the normalised deviation) is at least the task's minimum, it has a free slot, and it is
  neither suspended nor quarantined.
\<close>

theorem assignTask_selects_eligible:
  assumes "assignTask d now tid = (res, d')"
    and "res_assignedAgentId res = Some aid"
  shows "\<exists>task agent. tasks d tid = Some task \<and> agent \<in> set (getAllAgents (registry d))
           \<and> agent_id agent = aid
           \<and> tierIndex (requiredTier task) \<le> tierIndex (maxGovernanceTier agent)
           \<and> minTrustScore task \<le> normalizedTrust agent
           \<and> currentTaskCount agent < maxConcurrentTasks agent
           \<and> agent_status agent \<noteq> Suspended \<and> agent_status agent \<noteq> Quarantined"
proof -
  from assms obtain task where t: "tasks d tid = Some task"
    by (auto simp: assignTask_def split: option.splits)
  from assms t have p: "task_status task = Pending"
    by (auto simp: assignTask_def split: if_splits)
  from assms t p have ne: "findEligibleAgents d task \<noteq> []"
    by (auto simp: assignTask_def Let_def split: if_splits)
  then obtain best where b: "selectBestAgent now (findEligibleAgents d task) task = Some best"
    and bm: "best \<in> set (findEligibleAgents d task)"
    using selectBestAgent_mem by blast
  from assms t p ne b have "agent_id best = aid"
    by (auto simp: assignTask_def Let_def split: if_splits dest: executeAssignment_agent)
  moreover from bm have "best \<in> set (getAllAgents (registry d))" and "eligible task best"
    by (auto simp: findEligibleAgents_def)
  ultimately show ?thesis using t eligibleD[of task best] by auto
qed

theorem assignTask_selects_eligible_witness:
  "res_assignedAgentId
     (fst (assignTask (scn_dispatcher (scn_task Pending None False) (scn_agent Idle 0)) 5 ''t1''))
     = Some ''a1''
   \<and> (\<exists>task agent.
         tasks (scn_dispatcher (scn_task Pending None False) (scn_agent Idle 0)) ''t1'' = Some task
         \<and> agent \<in> set (getAllAgents
                (registry (scn_dispatcher (scn_task Pending None False) (scn_agent Idle 0))))
         \<and> agent_id agent = ''a1''
         \<and> tierIndex (requiredTier task) \<le> tierIndex (maxGovernanceTier agent)
         \<and> minTrustScore task \<le> normalizedTrust agent
         \<and> currentTaskCount agent < maxConcurrentTasks agent
         \<and> agent_status agent \<noteq> Suspended \<and> agent_status agent \<noteq> Quarantined)"
proof -
  let ?d = "scn_dispatcher (scn_task Pending None False) (scn_agent Idle 0)"
  have h1: "assignTask ?d 5 ''t1'' = (fst (assignTask ?d 5 ''t1''), snd (assignTask ?d 5 ''t1''))"
    by simp
  have h2: "res_assignedAgentId (fst (assignTask ?d 5 ''t1'')) = Some ''a1''"
    by (simp add: scn_dispatcher_def scn_task_def scn_agent_def scn_registry_def
        assignTask_def findEligibleAgents_def eligible_def getAllAgents_def normalizedTrust_def
        selectBestAgent_def executeAssignment_def assignTask_reg_def getAgent_def Let_def)
  from assignTask_selects_eligible [OF h1 h2] h2 show ?thesis by simp
qed

text \<open>
  Claim C1, first half: a pending task that requires approval and has an eligible agent
  is moved to \<open>awaiting_approval\<close>. The selected agent is reported in the result and in
  the event, and it is not recorded on the task.
\<close>

lemma assignTask_awaiting:
  assumes "tasks d tid = Some task" and "task_status task = Pending"
    and "requiresApproval task" and "findEligibleAgents d task \<noteq> []"
  shows "\<exists>t'. tasks (snd (assignTask d now tid)) tid = Some t'
           \<and> task_status t' = AwaitingApproval
           \<and> assignedAgentId t' = assignedAgentId task"
proof -
  obtain best where "selectBestAgent now (findEligibleAgents d task) task = Some best"
    using selectBestAgent_mem [OF assms(4)] by blast
  with assms show ?thesis
    by (simp add: assignTask_def Let_def emitEvent_def)
qed

text \<open>
  Second half: \<open>approveTask\<close> resumes the assignment only through the agent recorded on
  the task. With none recorded, no number of approvals moves the task on.
\<close>

lemma approveTask_stuck:
  assumes "tasks d tid = Some task" and "task_status task = AwaitingApproval"
    and "assignedAgentId task = None"
  shows "\<exists>t'. tasks (snd (approveTask d now tid aid)) tid = Some t'
           \<and> task_status t' = AwaitingApproval \<and> assignedAgentId t' = None
           \<and> registry (snd (approveTask d now tid aid)) = registry d"
  using assms by (simp add: approveTask_def Let_def emitEvent_def)

text \<open>
  Claim C1. The task \<open>t1\<close> requires one approval. \<open>assignTask\<close> selects \<open>a1\<close> and moves the
  task to \<open>awaiting_approval\<close>; the approval of \<open>v1\<close> is recorded and reaches the required
  count, and the task is still \<open>awaiting_approval\<close> with no agent assigned.
\<close>

theorem approveTask_quorum_does_not_resume:
  "(let r1 = assignTask (scn_dispatcher (scn_task Pending None True) (scn_agent Idle 0)) 1 ''t1'';
        r2 = approveTask (snd r1) 2 ''t1'' ''v1''
    in (success (fst r1), res_assignedAgentId (fst r1),
        map_option task_status (tasks (snd r1) ''t1''),
        fst r2,
        map_option approvalVotes (tasks (snd r2) ''t1''),
        map_option requiredApprovals (tasks (snd r2) ''t1''),
        map_option task_status (tasks (snd r2) ''t1''),
        map_option assignedAgentId (tasks (snd r2) ''t1''),
        map_option currentTaskCount (getAgent (registry (snd r2)) ''a1'')))
   = (True, Some ''a1'', Some AwaitingApproval, True, Some (Some [''v1'']), Some 1,
      Some AwaitingApproval, Some None, Some 0)"
  by (simp add: scn_dispatcher_def scn_task_def scn_agent_def scn_registry_def
      assignTask_def findEligibleAgents_def eligible_def getAllAgents_def normalizedTrust_def
      selectBestAgent_def approveTask_def emitEvent_def getAgent_def Let_def)


section \<open>Agent registry: quarantine on critical trust\<close>

text \<open>
  Claim C5, as the code has it. A six-element vector that the trust manager classifies
  as critical leaves a registered agent quarantined. The quarantine event and the
  security alert are emitted when the agent was not quarantined before the call; when it
  already was, the trust update is the only event.
\<close>

theorem updateTrustVector_critical_quarantines:
  assumes "getAgent r i = Some agent"
    and "length v = 6"
    and "level (computeTrustScore r i v) = CRITICAL"
  shows "fst (updateTrustVector r now i v) = Inr ()
         \<and> (\<exists>a'. getAgent (snd (updateTrustVector r now i v)) i = Some a'
                \<and> agent_status a' = Quarantined)
         \<and> map ev_type (reg_events (snd (updateTrustVector r now i v)))
             = map ev_type (reg_events r)
               @ (if agent_status agent = Quarantined then [trust_updated]
                  else [trust_updated, agent_quarantined, security_alert])"
  using assms
  by (simp add: updateTrustVector_def Let_def getAgent_def setAgent_def emitEvent_reg_def
      AList.update_conv')

theorem updateTrustVector_critical_quarantines_witness:
  "getAgent (scn_registry CRITICAL (scn_agent Idle 0)) ''a1'' = Some (scn_agent Idle 0)
   \<and> map_option agent_status
        (getAgent (snd (updateTrustVector (scn_registry CRITICAL (scn_agent Idle 0)) 5 ''a1''
                          [0, 0, 0, 0, 0, 0])) ''a1'') = Some Quarantined
   \<and> map ev_type (reg_events (snd (updateTrustVector
          (scn_registry CRITICAL (scn_agent Idle 0)) 5 ''a1'' [0, 0, 0, 0, 0, 0])))
       = [trust_updated, agent_quarantined, security_alert]"
proof -
  let ?r = "scn_registry CRITICAL (scn_agent Idle 0)"
  have h1: "getAgent ?r ''a1'' = Some (scn_agent Idle 0)"
    by (simp add: scn_registry_def scn_agent_def getAgent_def)
  have h2: "length [0, 0, 0, 0, 0, 0 :: real] = 6" by simp
  have h3: "level (computeTrustScore ?r ''a1'' [0, 0, 0, 0, 0, 0]) = CRITICAL"
    by (simp add: scn_registry_def constTrust_def)
  have e: "reg_events ?r = []" "agent_status (scn_agent Idle 0) = Idle"
    by (simp_all add: scn_registry_def scn_agent_def)
  from updateTrustVector_critical_quarantines [OF h1 h2 h3, of 5] h1 e
  show ?thesis by auto
qed

text \<open>
  The claim as stated fails for an agent that is already quarantined: of two successive
  critical updates, the first one raises the alert and the second one is silent.
\<close>

theorem updateTrustVector_no_alert_counterexample:
  "(let r1 = snd (updateTrustVector (scn_registry CRITICAL (scn_agent Idle 0)) 5 ''a1''
                    [0, 0, 0, 0, 0, 0]);
        r2 = snd (updateTrustVector r1 6 ''a1'' [0, 0, 0, 0, 0, 0])
    in (level (computeTrustScore r1 ''a1'' [0, 0, 0, 0, 0, 0]),
        map ev_type (reg_events r1),
        map ev_type (drop (length (reg_events r1)) (reg_events r2)),
        map_option agent_status (getAgent r2 ''a1'')))
   = (CRITICAL, [trust_updated, agent_quarantined, security_alert], [trust_updated],
      Some Quarantined)"
  by (simp add: scn_registry_def scn_agent_def constTrust_def updateTrustVector_def
      getAgent_def setAgent_def emitEvent_reg_def Let_def)


end
